theory Spec2Isabelle
  imports Main "HOL-Library.Word"
begin

section \<open>JavaScript strings and values\<close>

text \<open>
  A JavaScript string is a sequence of UTF-16 code units. Literals of the source are
  written \<open>js ''...''\<close>.
\<close>

type_synonym code_unit = "16 word"
type_synonym jsstring = "code_unit list"

definition js :: "string \<Rightarrow> jsstring" where
  "js s = map of_char s"

text \<open>
  \<^verbatim>\<open>String.prototype.trim\<close> strips WhiteSpace and LineTerminator code points
  (ECMAScript 12.2, 12.3): TAB, LF, VT, FF, CR, SP, NBSP, the Unicode space separators,
  LS, PS and ZWNBSP. All of them are single code units.
\<close>

definition isWhiteSpace :: "code_unit \<Rightarrow> bool" where
  "isWhiteSpace c =
     (c = 0x9 \<or> c = 0xA \<or> c = 0xB \<or> c = 0xC \<or> c = 0xD \<or> c = 0x20 \<or> c = 0xA0
      \<or> c = 0x1680 \<or> (0x2000 \<le> c \<and> c \<le> 0x200A) \<or> c = 0x2028 \<or> c = 0x2029
      \<or> c = 0x202F \<or> c = 0x205F \<or> c = 0x3000 \<or> c = 0xFEFF)"

definition trim :: "jsstring \<Rightarrow> jsstring" where
  "trim s = rev (dropWhile isWhiteSpace (rev (dropWhile isWhiteSpace s)))"

text \<open>
  \<^verbatim>\<open>encodeURIComponent\<close> (ECMAScript 19.2.6): the letters, the digits and
  \<^verbatim>\<open>- _ . ! ~ * ' ( )\<close> stay; any other code point becomes the bytes of its UTF-8
  form, each written \<^verbatim>\<open>%XX\<close>; a surrogate without its partner raises
  \<^verbatim>\<open>URIError\<close>, which is the result \<open>None\<close>.
\<close>

definition isHighSurrogate :: "code_unit \<Rightarrow> bool" where
  "isHighSurrogate c = (0xD800 \<le> c \<and> c \<le> 0xDBFF)"

definition isLowSurrogate :: "code_unit \<Rightarrow> bool" where
  "isLowSurrogate c = (0xDC00 \<le> c \<and> c \<le> 0xDFFF)"

definition uriUnreserved :: "code_unit \<Rightarrow> bool" where
  "uriUnreserved c =
     ((0x41 \<le> c \<and> c \<le> 0x5A) \<or> (0x61 \<le> c \<and> c \<le> 0x7A) \<or> (0x30 \<le> c \<and> c \<le> 0x39)
      \<or> c = 0x2D \<or> c = 0x5F \<or> c = 0x2E \<or> c = 0x21 \<or> c = 0x7E \<or> c = 0x2A
      \<or> c = 0x27 \<or> c = 0x28 \<or> c = 0x29)"

definition hexDigit :: "nat \<Rightarrow> code_unit" where
  "hexDigit n = (if n < 10 then of_nat (48 + n) else of_nat (55 + n))"

definition percent :: "nat \<Rightarrow> jsstring" where
  "percent b = [0x25, hexDigit (b div 16), hexDigit (b mod 16)]"

definition utf8 :: "nat \<Rightarrow> nat list" where
  "utf8 cp =
     (if cp < 0x80 then [cp]
      else if cp < 0x800 then [0xC0 + cp div 0x40, 0x80 + cp mod 0x40]
      else if cp < 0x10000 then
        [0xE0 + cp div 0x1000, 0x80 + (cp div 0x40) mod 0x40, 0x80 + cp mod 0x40]
      else
        [0xF0 + cp div 0x40000, 0x80 + (cp div 0x1000) mod 0x40,
         0x80 + (cp div 0x40) mod 0x40, 0x80 + cp mod 0x40])"

definition surrogatePair :: "code_unit \<Rightarrow> code_unit \<Rightarrow> nat" where
  "surrogatePair hi lo = (unat hi - 0xD800) * 0x400 + (unat lo - 0xDC00) + 0x10000"

fun encodeURIComponent :: "jsstring \<Rightarrow> jsstring option" where
  "encodeURIComponent [] = Some []"
| "encodeURIComponent (c # cs) =
     (if uriUnreserved c then map_option (\<lambda>r. c # r) (encodeURIComponent cs)
      else if isLowSurrogate c then None
      else if isHighSurrogate c then
        (case cs of
           [] \<Rightarrow> None
         | d # ds \<Rightarrow>
             if isLowSurrogate d then
               map_option (\<lambda>r. concat (map percent (utf8 (surrogatePair c d))) @ r)
                 (encodeURIComponent ds)
             else None)
      else map_option (\<lambda>r. concat (map percent (utf8 (unat c))) @ r) (encodeURIComponent cs))"

text \<open>
  The values that reach the handlers through JSON bodies, \<^verbatim>\<open>dataset\<close> attributes and
  inline \<^verbatim>\<open>onclick\<close> arguments. Numbers are the integers (ids and click counters).
\<close>

datatype jsval = Undefined | Null | Num int | Str jsstring

fun truthy :: "jsval \<Rightarrow> bool" where
  "truthy Undefined = False"
| "truthy Null = False"
| "truthy (Num n) = (n \<noteq> 0)"
| "truthy (Str s) = (s \<noteq> [])"

text \<open>\<^verbatim>\<open>a || b\<close>\<close>

definition or_else :: "jsval \<Rightarrow> jsval \<Rightarrow> jsval" where
  "or_else a b = (if truthy a then a else b)"

text \<open>\<^verbatim>\<open>a || b\<close> where \<open>a\<close> is a string, or absent (\<open>None\<close>).\<close>

definition str_or_else :: "jsstring option \<Rightarrow> jsstring \<Rightarrow> jsstring" where
  "str_or_else a b = (case a of None \<Rightarrow> b | Some v \<Rightarrow> if v = [] then b else v)"

section \<open>Links and what the templates render\<close>

text \<open>The Link JSON shape the endpoints return, with the fields the script reads.\<close>

record link =
  link_id :: jsval
  link_title :: jsstring
  link_url :: jsstring
  link_description :: jsval
  link_category :: jsstring
  link_clicks :: jsval

text \<open>
  A rendered link entry: the values the template literal interpolates. The inline handler
  is \<^verbatim>\<open>openLink('${link.url}', ${link.id})\<close>, followed in the command palette by
  \<^verbatim>\<open>closeAllModals()\<close>. The static markup around the values is left out.
\<close>

record card =
  onclick_url :: jsstring
  onclick_id :: jsval
  onclick_closes :: bool
  card_title :: jsstring
  card_description :: jsval
  card_category :: jsstring
  card_clicks :: "jsval option"

text \<open>The entry of \<^verbatim>\<open>displaySearchResults\<close>.\<close>

definition search_card :: "link \<Rightarrow> card" where
  "search_card l =
     \<lparr>onclick_url = link_url l, onclick_id = link_id l, onclick_closes = False,
      card_title = link_title l, card_description = or_else (link_description l) (Str []),
      card_category = link_category l, card_clicks = Some (or_else (link_clicks l) (Num 0))\<rparr>"

text \<open>The entry of \<^verbatim>\<open>performQuickSearch\<close>.\<close>

definition quick_card :: "link \<Rightarrow> card" where
  "quick_card l =
     \<lparr>onclick_url = link_url l, onclick_id = link_id l, onclick_closes = True,
      card_title = link_title l, card_description = or_else (link_description l) (Str []),
      card_category = link_category l, card_clicks = Some (or_else (link_clicks l) (Num 0))\<rparr>"

text \<open>The entry of \<^verbatim>\<open>addChatLinks\<close>: no click counter is shown.\<close>

definition chat_card :: "link \<Rightarrow> card" where
  "chat_card l =
     \<lparr>onclick_url = link_url l, onclick_id = link_id l, onclick_closes = False,
      card_title = link_title l, card_description = or_else (link_description l) (Str []),
      card_category = link_category l, card_clicks = None\<rparr>"

text \<open>
  What \<^verbatim>\<open>innerHTML\<close> of a results pane holds: a fixed message (its text), the joined
  link entries, or the joined command entries (command and description).
\<close>

datatype html = Markup string | Cards "card list" | Commands "(string \<times> string) list"

text \<open>The link entries a pane's content holds.\<close>

fun cards_of :: "html \<Rightarrow> card list" where
  "cards_of (Cards cs) = cs"
| "cards_of (Markup m) = []"
| "cards_of (Commands cs) = []"

text \<open>
  A child of \<^verbatim>\<open>#chatMessages\<close>: a message bubble with its element id (the
  \<^verbatim>\<open>Date.now()\<close> behind \<^verbatim>\<open>'msg-'\<close>), its text and its sender, or a block of links.
\<close>

datatype chat_node = Message nat jsstring string | Links "card list"

fun has_id :: "nat \<Rightarrow> chat_node \<Rightarrow> bool" where
  "has_id i (Message j m sender) = (i = j)"
| "has_id i (Links cs) = False"

section \<open>The page state\<close>

record notification =
  n_message :: jsstring
  n_type :: string
  n_duration :: nat

record add_form =
  f_title :: jsstring
  f_url :: jsstring
  f_description :: jsstring
  f_category :: jsstring
  f_added_by :: jsstring

text \<open>A \<^verbatim>\<open>.category-filter\<close> button and a \<^verbatim>\<open>.link-card\<close> element.\<close>

record filter_button =
  data_category :: "jsstring option"
  classList :: "string list"

record link_card =
  card_data_category :: "jsstring option"
  display :: string

text \<open>
  The requests \<^verbatim>\<open>fetch\<close> sends, by endpoint; \<open>Search q\<close> is
  \<^verbatim>\<open>/search?q=\<close> followed by \<open>q\<close>, the query as encoded.
\<close>

datatype request =
    Search jsstring
  | AiChat jsstring
  | AddLink add_form
  | ImportFromText jsstring jsstring jsstring
  | ClickLink jsval
  | DeleteLink jsval

text \<open>
  The closure's variables, the DOM the handlers read and write, and the effects on the
  world outside the page: the requests sent, the tabs opened, the reloads asked for and
  the lines written to the console, each in order.
\<close>

record app =
  isSearchMode :: bool
  searchTimeout :: "jsstring option"
  searchResults_hidden :: bool
  searchResults_html :: html
  chatInput_value :: jsstring
  chatMessages :: "chat_node list"
  addLinkModal_hidden :: bool
  addLinkForm :: add_form
  addLinkForm_initial :: add_form
  importModal_hidden :: bool
  importText_value :: jsstring
  importCategory_value :: jsstring
  importAddedBy_value :: jsstring
  commandPalette_hidden :: bool
  commandResults_html :: html
  filterButtons :: "filter_button list"
  linkCards :: "link_card list"
  notifications :: "notification list"
  console :: "string list"
  requests :: "request list"
  opened :: "(jsstring \<times> string) list"
  reloads :: nat

text \<open>
  What an awaited \<^verbatim>\<open>fetch\<close> (and \<^verbatim>\<open>response.json()\<close>) gives the handler:
  \<open>Threw\<close> when the promise rejects (no connection, a body that is not JSON), so
  that control reaches the \<^verbatim>\<open>catch\<close> block; \<open>Got v\<close> with what the handler reads
  of the answer otherwise. A body that is \<^verbatim>\<open>null\<close> makes the first property read
  throw: where nothing has happened in the \<^verbatim>\<open>try\<close> block by then (search, add
  link, import) that is \<open>Threw\<close> too; for the chat, where the indicator is removed
  first, the body is an option. A handler runs to completion on the answer it is given.
\<close>

datatype 'a fetched = Threw | Got 'a

text \<open>\<^verbatim>\<open>{success, error?}\<close> and \<^verbatim>\<open>{success, imported_count, error?}\<close>: the truthiness
  of \<^verbatim>\<open>success\<close>, \<^verbatim>\<open>error\<close> when it is a string, and \<^verbatim>\<open>imported_count\<close> as
  the template literal prints it.\<close>

record result =
  success :: bool
  error :: "jsstring option"

record import_result = result +
  imported_count :: jsstring

text \<open>\<^verbatim>\<open>{response, relevant_links}\<close>; \<open>None\<close> when \<^verbatim>\<open>relevant_links\<close> is falsy.\<close>

record chat_data =
  response :: jsstring
  relevant_links :: "link list option"

section \<open>Effects\<close>

definition fetch :: "request \<Rightarrow> app \<Rightarrow> app" where
  "fetch r s = s\<lparr>requests := requests s @ [r]\<rparr>"

definition console_error :: "string \<Rightarrow> app \<Rightarrow> app" where
  "console_error label s = s\<lparr>console := console s @ [label]\<rparr>"

definition location_reload :: "app \<Rightarrow> app" where
  "location_reload s = s\<lparr>reloads := Suc (reloads s)\<rparr>"

definition window_open :: "jsstring \<Rightarrow> string \<Rightarrow> app \<Rightarrow> app" where
  "window_open u t s = s\<lparr>opened := opened s @ [(u, t)]\<rparr>"

text \<open>\<^verbatim>\<open>showNotification(message, type = 'info', duration = 3000)\<close>: the element appended
  to \<^verbatim>\<open>#notifications\<close>; it removes itself after \<open>duration\<close> milliseconds.\<close>

definition showNotification :: "jsstring \<Rightarrow> string \<Rightarrow> nat \<Rightarrow> app \<Rightarrow> app" where
  "showNotification message type duration s =
     s\<lparr>notifications := notifications s @
          [\<lparr>n_message = message, n_type = type, n_duration = duration\<rparr>]\<rparr>"

section \<open>Modal controls\<close>

definition closeAddLinkModal :: "app \<Rightarrow> app" where
  "closeAddLinkModal s = s\<lparr>addLinkModal_hidden := True, addLinkForm := addLinkForm_initial s\<rparr>"

definition closeImportModal :: "app \<Rightarrow> app" where
  "closeImportModal s = s\<lparr>importModal_hidden := True, importText_value := []\<rparr>"

definition closeAllModals :: "app \<Rightarrow> app" where
  "closeAllModals s =
     s\<lparr>addLinkModal_hidden := True, importModal_hidden := True,
       commandPalette_hidden := True, searchResults_hidden := True\<rparr>"

section \<open>Search\<close>

definition displaySearchResults :: "link list \<Rightarrow> app \<Rightarrow> app" where
  "displaySearchResults links s =
     (if length links = 0 then s\<lparr>searchResults_html := Markup ''No links found''\<rparr>
      else s\<lparr>searchResults_html := Cards (map search_card links)\<rparr>)
     \<lparr>searchResults_hidden := False\<rparr>"

text \<open>
  \<^verbatim>\<open>performSearch\<close>: the URL is built inside the \<^verbatim>\<open>try\<close> block, so a query
  that cannot be encoded reaches the \<^verbatim>\<open>catch\<close> block before any request is sent.
\<close>

definition performSearch :: "jsstring \<Rightarrow> link list fetched \<Rightarrow> app \<Rightarrow> app" where
  "performSearch query answer s =
     (case encodeURIComponent query of
        None \<Rightarrow>
          showNotification (js ''Search failed. Please try again.'') ''error'' 3000
            (console_error ''Search error:'' s)
      | Some q \<Rightarrow>
          (let s1 = fetch (Search q) s in
           case answer of
             Got links \<Rightarrow> displaySearchResults links s1
           | Threw \<Rightarrow>
               showNotification (js ''Search failed. Please try again.'') ''error'' 3000
                 (console_error ''Search error:'' s1)))"

text \<open>
  \<^verbatim>\<open>handleSearch\<close> on an input event with the field's value: the pending timer is
  cleared; a blank query hides the pane and returns; otherwise a timer is set whose
  callback holds the trimmed query.
\<close>

definition handleSearch :: "jsstring \<Rightarrow> app \<Rightarrow> app" where
  "handleSearch v s =
     (let s1 = s\<lparr>searchTimeout := None\<rparr>;
          query = trim v
      in if query = [] then s1\<lparr>searchResults_hidden := True\<rparr>
         else s1\<lparr>searchTimeout := Some query\<rparr>)"

text \<open>The timer's callback, 300 ms later, with the answer the search request will get.\<close>

definition searchTimeout_fires :: "link list fetched \<Rightarrow> app \<Rightarrow> app" where
  "searchTimeout_fires answer s =
     (case searchTimeout s of
        None \<Rightarrow> s
      | Some query \<Rightarrow>
          (let s1 = s\<lparr>searchTimeout := None\<rparr>
           in if isSearchMode s1 then performSearch query answer s1 else s1))"

section \<open>Chat\<close>

text \<open>\<^verbatim>\<open>addChatMessage\<close> at time \<open>now\<close>; returns the element id.\<close>

definition addChatMessage :: "jsstring \<Rightarrow> string \<Rightarrow> bool \<Rightarrow> nat \<Rightarrow> app \<Rightarrow> nat \<times> app" where
  "addChatMessage message sender isTemporary now s =
     (now, s\<lparr>chatMessages := chatMessages s @ [Message now message sender]\<rparr>)"

definition addChatLinks :: "link list \<Rightarrow> app \<Rightarrow> app" where
  "addChatLinks links s = s\<lparr>chatMessages := chatMessages s @ [Links (map chat_card links)]\<rparr>"

text \<open>
  \<^verbatim>\<open>document.getElementById(id).remove()\<close>: the first element with the id goes;
  when no element has the id, \<^verbatim>\<open>getElementById\<close> gives \<^verbatim>\<open>null\<close> and the call
  throws \<^verbatim>\<open>TypeError\<close>, which is the result \<open>None\<close>.
\<close>

fun remove_first :: "nat \<Rightarrow> chat_node list \<Rightarrow> chat_node list" where
  "remove_first i [] = []"
| "remove_first i (n # ns) = (if has_id i n then ns else n # remove_first i ns)"

definition remove_by_id :: "nat \<Rightarrow> app \<Rightarrow> app option" where
  "remove_by_id i s =
     (if list_ex (has_id i) (chatMessages s)
      then Some (s\<lparr>chatMessages := remove_first i (chatMessages s)\<rparr>)
      else None)"

text \<open>The thinking indicator's text: U+1F914 and \<^verbatim>\<open>' Thinking...'\<close>.\<close>

definition thinking :: jsstring where
  "thinking = [0xD83E, 0xDD14] @ js '' Thinking...''"

text \<open>
  The \<^verbatim>\<open>catch\<close> block of \<^verbatim>\<open>sendChatMessage\<close>. When its own removal of the
  indicator throws, the handler ends there: no apology is added and nothing is logged.
\<close>

definition sendChatMessage_catch :: "nat \<Rightarrow> nat \<Rightarrow> app \<Rightarrow> app" where
  "sendChatMessage_catch thinkingId t3 s =
     (case remove_by_id thinkingId s of
        None \<Rightarrow> s
      | Some s5 \<Rightarrow>
          console_error ''Chat error:''
            (snd (addChatMessage
                    (js ''Sorry, I encountered an error. Please try again.'') ''ai'' False t3 s5)))"

text \<open>
  \<^verbatim>\<open>sendChatMessage\<close>, with the three readings of \<^verbatim>\<open>Date.now()\<close> its calls of
  \<^verbatim>\<open>addChatMessage\<close> make and the answer of \<^verbatim>\<open>/ai_chat\<close>: a rejected promise, a
  \<^verbatim>\<open>null\<close> body (\<open>Got None\<close>), whose \<^verbatim>\<open>data.response\<close> throws after the
  indicator was removed, or an object.
\<close>

definition sendChatMessage ::
    "nat \<Rightarrow> nat \<Rightarrow> nat \<Rightarrow> chat_data option fetched \<Rightarrow> app \<Rightarrow> app" where
  "sendChatMessage t1 t2 t3 answer s =
     (let message = trim (chatInput_value s) in
      if message = [] then s
      else
        let s1 = snd (addChatMessage message ''user'' False t1 s);
            s2 = s1\<lparr>chatInput_value := []\<rparr>;
            (thinkingId, s3) = addChatMessage thinking ''ai'' True t2 s2;
            s4 = fetch (AiChat message) s3
        in case answer of
             Threw \<Rightarrow> sendChatMessage_catch thinkingId t3 s4
           | Got body \<Rightarrow>
               (case remove_by_id thinkingId s4 of
                  None \<Rightarrow> sendChatMessage_catch thinkingId t3 s4
                | Some s5 \<Rightarrow>
                    (case body of
                       None \<Rightarrow> sendChatMessage_catch thinkingId t3 s5
                     | Some d \<Rightarrow>
                         (let s6 = snd (addChatMessage (response d) ''ai'' False t3 s5)
                          in case relevant_links d of
                               None \<Rightarrow> s6
                             | Some links \<Rightarrow>
                                 if length links > 0 then addChatLinks links s6 else s6))))"

section \<open>Link management\<close>

definition handleAddLink :: "result fetched \<Rightarrow> app \<Rightarrow> app" where
  "handleAddLink answer s =
     (let formData = addLinkForm s;
          s1 = fetch (AddLink formData) s
      in case answer of
           Got r \<Rightarrow>
             if success r then
               location_reload (closeAddLinkModal
                 (showNotification (js ''Link added successfully!'') ''success'' 3000 s1))
             else showNotification (str_or_else (error r) (js ''Failed to add link'')) ''error'' 3000 s1
         | Threw \<Rightarrow>
             showNotification (js ''Failed to add link. Please try again.'') ''error'' 3000
               (console_error ''Add link error:'' s1))"

definition handleImport :: "import_result fetched \<Rightarrow> app \<Rightarrow> app" where
  "handleImport answer s =
     (let content = trim (importText_value s);
          cat = importCategory_value s;
          addedBy = (if importAddedBy_value s = [] then js ''Anonymous'' else importAddedBy_value s)
      in if content = [] then
           showNotification (js ''Please paste some content to import'') ''error'' 3000 s
         else
           let s1 = fetch (ImportFromText content cat addedBy) s
           in case answer of
                Got r \<Rightarrow>
                  if success r then
                    location_reload (closeImportModal
                      (showNotification
                         (js ''Successfully imported '' @ imported_count r @ js '' links!'')
                         ''success'' 3000 s1))
                  else showNotification (str_or_else (error r) (js ''Import failed'')) ''error'' 3000 s1
              | Threw \<Rightarrow>
                  showNotification (js ''Import failed. Please try again.'') ''error'' 3000
                    (console_error ''Import error:'' s1))"

section \<open>Category filtering\<close>

definition classList_remove :: "string list \<Rightarrow> string list \<Rightarrow> string list" where
  "classList_remove cs xs = filter (\<lambda>c. c \<notin> set cs) xs"

fun classList_add :: "string list \<Rightarrow> string list \<Rightarrow> string list" where
  "classList_add [] xs = xs"
| "classList_add (c # cs) xs = classList_add cs (if c \<in> set xs then xs else xs @ [c])"

definition deactivate :: "filter_button \<Rightarrow> filter_button" where
  "deactivate b =
     b\<lparr>classList := classList_add [''bg-gray-200'', ''text-gray-700'']
          (classList_remove [''active'', ''bg-guvi-orange'', ''text-white''] (classList b))\<rparr>"

definition activate :: "filter_button \<Rightarrow> filter_button" where
  "activate b =
     b\<lparr>classList := classList_remove [''bg-gray-200'', ''text-gray-700'']
          (classList_add [''active'', ''bg-guvi-orange'', ''text-white''] (classList b))\<rparr>"

definition filter_card :: "jsstring option \<Rightarrow> link_card \<Rightarrow> link_card" where
  "filter_card cat c =
     (if cat = Some (js ''all'') \<or> card_data_category c = cat then c\<lparr>display := ''block''\<rparr>
      else c\<lparr>display := ''none''\<rparr>)"

text \<open>
  \<^verbatim>\<open>handleCategoryFilter\<close> on a click whose target is the \<open>i\<close>-th filter button;
  there is no such event for an \<open>i\<close> out of range.
\<close>

definition handleCategoryFilter :: "nat \<Rightarrow> app \<Rightarrow> app" where
  "handleCategoryFilter i s =
     (if i < length (filterButtons s) then
        let cat = data_category (filterButtons s ! i);
            bs = map deactivate (filterButtons s);
            bs' = bs[i := activate (bs ! i)]
        in s\<lparr>filterButtons := bs', linkCards := map (filter_card cat) (linkCards s)\<rparr>
      else s)"

text \<open>A card is shown unless its inline style hides it.\<close>

definition visible :: "link_card \<Rightarrow> bool" where
  "visible c = (display c \<noteq> ''none'')"

section \<open>Link interactions\<close>

text \<open>
  The answer of \<^verbatim>\<open>/click_link\<close> and \<^verbatim>\<open>/delete_link\<close> is \<^verbatim>\<open>response.ok\<close>: whether
  the status is in 200..299.
\<close>

definition trackLinkClick :: "jsval \<Rightarrow> bool fetched \<Rightarrow> app \<Rightarrow> app" where
  "trackLinkClick linkId answer s =
     (let s1 = fetch (ClickLink linkId) s
      in case answer of
           Got ok \<Rightarrow> s1
         | Threw \<Rightarrow> console_error ''Click tracking error:'' s1)"

definition deleteLink :: "jsval \<Rightarrow> bool fetched \<Rightarrow> app \<Rightarrow> app" where
  "deleteLink linkId answer s =
     (let s1 = fetch (DeleteLink linkId) s
      in case answer of
           Got ok \<Rightarrow>
             if ok then
               location_reload (showNotification (js ''Link deleted successfully'') ''success'' 3000 s1)
             else s1
         | Threw \<Rightarrow>
             showNotification (js ''Failed to delete link'') ''error'' 3000
               (console_error ''Delete error:'' s1))"

definition openLink :: "jsstring \<Rightarrow> jsval \<Rightarrow> bool fetched \<Rightarrow> app \<Rightarrow> app" where
  "openLink u linkId answer s =
     (let s1 = window_open u ''_blank'' s
      in if truthy linkId then trackLinkClick linkId answer s1 else s1)"

section \<open>Command palette\<close>

text \<open>
  \<^verbatim>\<open>performQuickSearch\<close>: as in \<^verbatim>\<open>performSearch\<close>, a query that cannot be
  encoded reaches the \<^verbatim>\<open>catch\<close> block, which only logs, before any request is sent.
\<close>

definition performQuickSearch :: "jsstring \<Rightarrow> link list fetched \<Rightarrow> app \<Rightarrow> app" where
  "performQuickSearch query answer s =
     (case encodeURIComponent query of
        None \<Rightarrow> console_error ''Quick search error:'' s
      | Some q \<Rightarrow>
          (let s1 = fetch (Search q) s
           in case answer of
                Got links \<Rightarrow>
                  if length links = 0 then s1\<lparr>commandResults_html := Markup ''No links found''\<rparr>
                  else s1\<lparr>commandResults_html := Cards (map quick_card (take 5 links))\<rparr>
              | Threw \<Rightarrow> console_error ''Quick search error:'' s1))"

text \<open>\<^verbatim>\<open>s.startsWith(p)\<close> and \<^verbatim>\<open>s.includes(q)\<close>.\<close>

definition startsWith :: "jsstring \<Rightarrow> jsstring \<Rightarrow> bool" where
  "startsWith s p = (take (length p) s = p)"

fun includes_str :: "jsstring \<Rightarrow> jsstring \<Rightarrow> bool" where
  "includes_str [] q = (q = [])"
| "includes_str (c # cs) q = (startsWith (c # cs) q \<or> includes_str cs q)"

text \<open>The palette's commands: \<^verbatim>\<open>cmd\<close> and \<^verbatim>\<open>desc\<close>.\<close>

definition commands :: "(string \<times> string) list" where
  "commands =
     [(''/add'', ''Add new link''),
      (''/import'', ''Import links from Google Docs''),
      (''/stats'', ''Show team statistics''),
      (''/chat'', ''Switch to AI chat mode'')]"

text \<open>
  \<^verbatim>\<open>handleCommandInput\<close> on an input event with the field's value. The built-in
  \<^verbatim>\<open>toLowerCase\<close> is a parameter. The joined entries are the empty string, which
  \<^verbatim>\<open>||\<close> replaces, exactly when no command matches.
\<close>

definition handleCommandInput ::
    "(jsstring \<Rightarrow> jsstring) \<Rightarrow> jsstring \<Rightarrow> link list fetched \<Rightarrow> app \<Rightarrow> app" where
  "handleCommandInput toLowerCase v answer s =
     (let query = toLowerCase v in
      if startsWith query (js ''/'') then
        (let matchedCommands = filter (\<lambda>c. includes_str (js (fst c)) query) commands
         in s\<lparr>commandResults_html :=
               (if matchedCommands = [] then Markup ''No commands found''
                else Commands matchedCommands)\<rparr>)
      else if query \<noteq> [] then performQuickSearch query answer s
      else s\<lparr>commandResults_html :=
               Markup (''Start typing to search or try commands like '/add', '/stats', '/import''
                       @ [CHR 0x27])\<rparr>)"

section \<open>Observations\<close>

text \<open>The link entries the search pane shows: none while the pane is hidden.\<close>

definition shown_results :: "app \<Rightarrow> card list" where
  "shown_results s = (if searchResults_hidden s then [] else cards_of (searchResults_html s))"

text \<open>
  \<open>s'\<close> differs from \<open>s\<close> at most in the notifications shown, the console and the
  requests sent: no modal was closed, no form or field reset, no pane or card changed,
  no tab opened and no reload asked for.
\<close>

definition page_unchanged :: "app \<Rightarrow> app \<Rightarrow> bool" where
  "page_unchanged s s' =
     (s'\<lparr>notifications := notifications s, console := console s, requests := requests s\<rparr> = s)"

text \<open>Between \<open>s\<close> and \<open>s'\<close> exactly one notification was shown, of type error.\<close>

definition notifies_error :: "app \<Rightarrow> app \<Rightarrow> bool" where
  "notifies_error s s' =
     (length (notifications s') = Suc (length (notifications s)) \<and>
      butlast (notifications s') = notifications s \<and>
      n_type (last (notifications s')) = ''error'')"

text \<open>A page to run the handlers on: two filter buttons, two link cards.\<close>

definition example_page :: app where
  "example_page =
     \<lparr>isSearchMode = True, searchTimeout = None, searchResults_hidden = True,
      searchResults_html = Markup [], chatInput_value = [], chatMessages = [],
      addLinkModal_hidden = False,
      addLinkForm = \<lparr>f_title = js ''Docs'', f_url = js ''https://example.com'',
                     f_description = [], f_category = js ''general'', f_added_by = []\<rparr>,
      addLinkForm_initial = \<lparr>f_title = [], f_url = [], f_description = [],
                             f_category = js ''general'', f_added_by = []\<rparr>,
      importModal_hidden = False, importText_value = [],
      importCategory_value = js ''general'', importAddedBy_value = [],
      commandPalette_hidden = True, commandResults_html = Markup [],
      filterButtons =
        [\<lparr>data_category = Some (js ''all''), classList = [''category-filter'', ''active'']\<rparr>,
         \<lparr>data_category = Some (js ''ai''), classList = [''category-filter'']\<rparr>],
      linkCards =
        [\<lparr>card_data_category = Some (js ''ai''), display = []\<rparr>,
         \<lparr>card_data_category = Some (js ''web''), display = []\<rparr>],
      notifications = [], console = [], requests = [], opened = [], reloads = 0\<rparr>"

text \<open>A link as \<^verbatim>\<open>/search\<close> returns it, numbered \<open>n\<close>.\<close>

definition example_link :: "int \<Rightarrow> link" where
  "example_link n =
     \<lparr>link_id = Num n, link_title = js ''Intro to ML'', link_url = js ''https://example.com/ml'',
      link_description = Null, link_category = js ''ai'', link_clicks = Num 0\<rparr>"

section \<open>Blank input\<close>

text \<open>\<^verbatim>\<open>!s.trim()\<close> holds exactly of the strings made of white space only.\<close>

lemma trim_eq_Nil_iff: "trim v = [] \<longleftrightarrow> list_all isWhiteSpace v"
proof
  assume "list_all isWhiteSpace v"
  then have "dropWhile isWhiteSpace v = []"
    by (simp add: list_all_iff)
  then show "trim v = []"
    unfolding trim_def by (simp only: rev.simps dropWhile.simps)
next
  assume t: "trim v = []"
  show "list_all isWhiteSpace v"
  proof (rule ccontr)
    assume "\<not> list_all isWhiteSpace v"
    then have ne: "dropWhile isWhiteSpace v \<noteq> []"
      by (simp add: list_all_iff)
    then have "\<not> isWhiteSpace (hd (dropWhile isWhiteSpace v))"
      by (rule hd_dropWhile)
    moreover have "hd (dropWhile isWhiteSpace v) \<in> set (rev (dropWhile isWhiteSpace v))"
      using ne by simp
    ultimately have "dropWhile isWhiteSpace (rev (dropWhile isWhiteSpace v)) \<noteq> []"
      by (metis dropWhile_eq_Nil_conv)
    then show False
      using t by (simp add: trim_def)
  qed
qed

lemma js_Nil [simp]: "js [] = []"
  by (simp add: js_def)

lemma js_Cons [simp]: "js (c # cs) = of_char c # js cs"
  by (simp add: js_def)

section \<open>Effects and filtering, unfolded\<close>

lemmas effect_defs =
  fetch_def console_error_def showNotification_def location_reload_def window_open_def

lemma visible_filter_card:
  "visible (filter_card cat c) \<longleftrightarrow> (cat = Some (js ''all'') \<or> card_data_category c = cat)"
  by (simp add: visible_def filter_card_def)

lemma category_filter_card [simp]:
  "card_data_category (filter_card cat c) = card_data_category c"
  by (simp add: filter_card_def)

section \<open>Properties of the handlers\<close>

text \<open>
  C1, as the script has it. A failed add-link or bulk import (an answer whose
  \<^verbatim>\<open>success\<close> is falsy, or a request that throws) shows exactly one error
  notification and changes nothing else on the page: no modal is closed, no form reset,
  no reload asked for; so does a delete whose request throws. A failed click increment is
  not notified: whatever the answer, \<^verbatim>\<open>trackLinkClick\<close> shows nothing and leaves the page
  as it is, and a request that throws is written to the console only.
\<close>

theorem failures_notified_or_logged:
  "(\<not> success r \<longrightarrow>
      page_unchanged s (handleAddLink (Got r) s) \<and> notifies_error s (handleAddLink (Got r) s))
   \<and> page_unchanged s (handleAddLink Threw s) \<and> notifies_error s (handleAddLink Threw s)
   \<and> (\<not> success ri \<longrightarrow>
      page_unchanged s (handleImport (Got ri) s) \<and> notifies_error s (handleImport (Got ri) s))
   \<and> page_unchanged s (handleImport Threw s) \<and> notifies_error s (handleImport Threw s)
   \<and> page_unchanged s (deleteLink linkId Threw s) \<and> notifies_error s (deleteLink linkId Threw s)
   \<and> page_unchanged s (trackLinkClick linkId answer s)
   \<and> notifications (trackLinkClick linkId answer s) = notifications s
   \<and> console (trackLinkClick linkId Threw s) = console s @ [''Click tracking error:'']"
  by (cases answer)
     (simp_all add: page_unchanged_def notifies_error_def handleAddLink_def handleImport_def
        deleteLink_def trackLinkClick_def effect_defs Let_def)

theorem failures_notified_or_logged_witness:
  "\<not> success \<lparr>success = False, error = Some (js ''URL already exists'')\<rparr>
   \<and> notifies_error example_page
        (handleAddLink (Got \<lparr>success = False, error = Some (js ''URL already exists'')\<rparr>) example_page)
   \<and> page_unchanged example_page
        (handleAddLink (Got \<lparr>success = False, error = Some (js ''URL already exists'')\<rparr>) example_page)
   \<and> \<not> success \<lparr>success = False, error = None, imported_count = []\<rparr>
   \<and> notifies_error example_page
        (handleImport (Got \<lparr>success = False, error = None, imported_count = []\<rparr>) example_page)
   \<and> notifies_error example_page (deleteLink (Str (js ''3'')) Threw example_page)
   \<and> notifications (trackLinkClick (Num 3) (Got False) example_page) = notifications example_page"
  using failures_notified_or_logged
    [of "\<lparr>success = False, error = Some (js ''URL already exists'')\<rparr>" example_page
        "\<lparr>success = False, error = None, imported_count = []\<rparr>" "Str (js ''3'')" "Got False"]
    failures_notified_or_logged
    [of "\<lparr>success = False, error = Some (js ''URL already exists'')\<rparr>" example_page
        "\<lparr>success = False, error = None, imported_count = []\<rparr>" "Num 3" "Got False"]
  by simp

text \<open>
  C1 as stated fails: a click increment whose request throws is logged to the console and
  shows no notification, and a delete answered with a status outside 200..299 (a
  nonexistent id) does nothing at all but send the request.
\<close>

theorem failure_not_notified_counterexample:
  "\<not> notifies_error example_page (trackLinkClick (Num 7) Threw example_page)
   \<and> notifications (trackLinkClick (Num 7) Threw example_page) = []
   \<and> console (trackLinkClick (Num 7) Threw example_page) = [''Click tracking error:'']
   \<and> \<not> notifies_error example_page (deleteLink (Str (js ''999'')) (Got False) example_page)
   \<and> deleteLink (Str (js ''999'')) (Got False) example_page
       = example_page\<lparr>requests := [DeleteLink (Str (js ''999''))]\<rparr>"
  by (simp add: notifies_error_def trackLinkClick_def deleteLink_def effect_defs example_page_def)

text \<open>
  C2. On a search input of white space only, \<^verbatim>\<open>handleSearch\<close> cancels the pending
  timer and hides the results pane, so no search request is sent, now or when the timer
  would have fired, and no link entry is shown. On any other input, in search mode, the
  timer's callback sends one search request for the trimmed query, encoded, and when the
  endpoint answers with the empty sequence the pane is shown with the message
  "No links found" and no link entry: no query and no matches both show no link. A
  trimmed query that cannot be encoded (it holds a surrogate without its partner) has no
  result set: no request is sent, the pane stays as it was and "Search failed. Please try
  again." is notified.
\<close>

theorem handleSearch_blank_and_no_matches:
  "(list_all isWhiteSpace v \<longrightarrow>
      handleSearch v s = s\<lparr>searchTimeout := None, searchResults_hidden := True\<rparr>
      \<and> requests (searchTimeout_fires answer (handleSearch v s)) = requests s
      \<and> searchResults_hidden (searchTimeout_fires answer (handleSearch v s))
      \<and> shown_results (searchTimeout_fires answer (handleSearch v s)) = [])
   \<and> (\<not> list_all isWhiteSpace v \<and> isSearchMode s \<and> encodeURIComponent (trim v) = Some q \<longrightarrow>
      requests (searchTimeout_fires (Got []) (handleSearch v s)) = requests s @ [Search q]
      \<and> searchResults_html (searchTimeout_fires (Got []) (handleSearch v s)) = Markup ''No links found''
      \<and> \<not> searchResults_hidden (searchTimeout_fires (Got []) (handleSearch v s))
      \<and> shown_results (searchTimeout_fires (Got []) (handleSearch v s)) = [])
   \<and> (\<not> list_all isWhiteSpace v \<and> isSearchMode s \<and> encodeURIComponent (trim v) = None \<longrightarrow>
      requests (searchTimeout_fires answer (handleSearch v s)) = requests s
      \<and> searchResults_html (searchTimeout_fires answer (handleSearch v s)) = searchResults_html s
      \<and> searchResults_hidden (searchTimeout_fires answer (handleSearch v s)) = searchResults_hidden s
      \<and> notifications (searchTimeout_fires answer (handleSearch v s)) =
           notifications s @ [\<lparr>n_message = js ''Search failed. Please try again.'',
                                n_type = ''error'', n_duration = 3000\<rparr>])
   \<and> displaySearchResults [] s =
        s\<lparr>searchResults_html := Markup ''No links found'', searchResults_hidden := False\<rparr>"
  by (simp add: handleSearch_def searchTimeout_fires_def performSearch_def
        displaySearchResults_def shown_results_def effect_defs trim_eq_Nil_iff Let_def)

theorem handleSearch_blank_and_no_matches_witness:
  "list_all isWhiteSpace [0x20, 0x20]
   \<and> requests (searchTimeout_fires (Got [example_link 1]) (handleSearch [0x20, 0x20] example_page)) = []
   \<and> searchResults_hidden (searchTimeout_fires (Got [example_link 1]) (handleSearch [0x20, 0x20] example_page))
   \<and> \<not> list_all isWhiteSpace (js ''a b '') \<and> isSearchMode example_page
   \<and> encodeURIComponent (trim (js ''a b '')) = Some (js ''a%20b'')
   \<and> requests (searchTimeout_fires (Got []) (handleSearch (js ''a b '') example_page)) = [Search (js ''a%20b'')]
   \<and> searchResults_html (searchTimeout_fires (Got []) (handleSearch (js ''a b '') example_page))
       = Markup ''No links found''
   \<and> \<not> searchResults_hidden (searchTimeout_fires (Got []) (handleSearch (js ''a b '') example_page))
   \<and> \<not> list_all isWhiteSpace [0xD800] \<and> encodeURIComponent (trim [0xD800]) = None
   \<and> requests (searchTimeout_fires (Got []) (handleSearch [0xD800] example_page)) = []
   \<and> map n_type (notifications (searchTimeout_fires (Got []) (handleSearch [0xD800] example_page)))
       = [''error'']"
proof -
  have w: "list_all isWhiteSpace [0x20, 0x20]" and n: "\<not> list_all isWhiteSpace (js ''a b '')"
    and u: "\<not> list_all isWhiteSpace [0xD800]"
    by (simp_all add: isWhiteSpace_def)
  have t: "trim (js ''a b '') = js ''a b''" "trim [0xD800] = [0xD800]"
    by (simp_all add: trim_def isWhiteSpace_def)
  have e: "encodeURIComponent (trim (js ''a b '')) = Some (js ''a%20b'')"
    unfolding t by code_simp
  have f: "encodeURIComponent (trim [0xD800]) = None"
    unfolding t by code_simp
  have m: "isSearchMode example_page" and r: "requests example_page = []"
    and o: "notifications example_page = []"
    by (simp_all add: example_page_def)
  from handleSearch_blank_and_no_matches
         [where v = "[0x20, 0x20]" and s = example_page and answer = "Got [example_link 1]"] w
  have "requests (searchTimeout_fires (Got [example_link 1]) (handleSearch [0x20, 0x20] example_page))
          = requests example_page
        \<and> searchResults_hidden (searchTimeout_fires (Got [example_link 1]) (handleSearch [0x20, 0x20] example_page))"
    by blast
  moreover
  from handleSearch_blank_and_no_matches
         [where v = "js ''a b ''" and s = example_page and q = "js ''a%20b''"] n m e
  have "requests (searchTimeout_fires (Got []) (handleSearch (js ''a b '') example_page))
          = requests example_page @ [Search (js ''a%20b'')]
        \<and> searchResults_html (searchTimeout_fires (Got []) (handleSearch (js ''a b '') example_page))
            = Markup ''No links found''
        \<and> \<not> searchResults_hidden (searchTimeout_fires (Got []) (handleSearch (js ''a b '') example_page))"
    by blast
  moreover
  from handleSearch_blank_and_no_matches
         [where v = "[0xD800]" and s = example_page and answer = "Got []"] u m f
  have "requests (searchTimeout_fires (Got []) (handleSearch [0xD800] example_page)) = requests example_page
        \<and> notifications (searchTimeout_fires (Got []) (handleSearch [0xD800] example_page)) =
           notifications example_page @ [\<lparr>n_message = js ''Search failed. Please try again.'',
                                n_type = ''error'', n_duration = 3000\<rparr>]"
    by blast
  ultimately show ?thesis
    using w n u m e f by (simp add: r o del: js_Cons)
qed

text \<open>
  C3. On a bulk-import submission whose content is empty or white space only,
  \<^verbatim>\<open>handleImport\<close> sends no request and its only effect is one error notification,
  "Please paste some content to import". On any other content exactly one request is
  sent, to \<^verbatim>\<open>/import_from_text\<close>, with the trimmed content, the chosen category and
  the importer's name, whatever the server answers.
\<close>

theorem handleImport_blank_or_sent:
  "(list_all isWhiteSpace (importText_value s) \<longrightarrow>
      handleImport answer s =
        s\<lparr>notifications := notifications s @
             [\<lparr>n_message = js ''Please paste some content to import'',
               n_type = ''error'', n_duration = 3000\<rparr>]\<rparr>
      \<and> requests (handleImport answer s) = requests s)
   \<and> (\<not> list_all isWhiteSpace (importText_value s) \<longrightarrow>
      requests (handleImport answer s) =
        requests s @ [ImportFromText (trim (importText_value s)) (importCategory_value s)
                        (if importAddedBy_value s = [] then js ''Anonymous''
                         else importAddedBy_value s)])"
  by (cases answer)
     (simp_all add: handleImport_def trim_eq_Nil_iff showNotification_def fetch_def
        console_error_def location_reload_def closeImportModal_def Let_def)

theorem handleImport_blank_or_sent_witness:
  "list_all isWhiteSpace [0xA, 0x20] \<and>
   requests (handleImport Threw (example_page\<lparr>importText_value := [0xA, 0x20]\<rparr>)) = [] \<and>
   map n_type (notifications (handleImport Threw (example_page\<lparr>importText_value := [0xA, 0x20]\<rparr>)))
     = [''error''] \<and>
   \<not> list_all isWhiteSpace (js '' a '') \<and>
   requests (handleImport Threw (example_page\<lparr>importText_value := js '' a ''\<rparr>))
     = [ImportFromText (js ''a'') (js ''general'') (js ''Anonymous'')]"
proof -
  have "list_all isWhiteSpace [0xA, 0x20]" "\<not> list_all isWhiteSpace (js '' a '')"
    by (simp_all add: isWhiteSpace_def)
  moreover have "trim (js '' a '') = js ''a''"
    by (simp add: trim_def isWhiteSpace_def)
  ultimately show ?thesis
    using handleImport_blank_or_sent [of "example_page\<lparr>importText_value := [0xA, 0x20]\<rparr>" Threw]
      handleImport_blank_or_sent [of "example_page\<lparr>importText_value := js '' a ''\<rparr>" Threw]
    by (simp add: example_page_def)
qed

text \<open>
  C6. After a click on a filter button, the link cards are the same cards in the same
  order, and a card is visible exactly when the button's category is "all" or equals the
  card's category: "all" shows every card, any other category shows the cards of that
  category and hides all others.
\<close>

theorem handleCategoryFilter_visible:
  "i < length (filterButtons s) \<Longrightarrow>
     length (linkCards (handleCategoryFilter i s)) = length (linkCards s)
     \<and> (\<forall>k < length (linkCards s).
          card_data_category (linkCards (handleCategoryFilter i s) ! k)
            = card_data_category (linkCards s ! k)
          \<and> (visible (linkCards (handleCategoryFilter i s) ! k) \<longleftrightarrow>
               (data_category (filterButtons s ! i) = Some (js ''all'')
                \<or> card_data_category (linkCards s ! k) = data_category (filterButtons s ! i))))"
  by (simp add: handleCategoryFilter_def Let_def visible_filter_card)

theorem handleCategoryFilter_visible_witness:
  "(1::nat) < length (filterButtons example_page)
   \<and> visible (linkCards (handleCategoryFilter 1 example_page) ! 0)
   \<and> \<not> visible (linkCards (handleCategoryFilter 1 example_page) ! 1)
   \<and> length (linkCards (handleCategoryFilter 1 example_page)) = 2"
proof -
  have b: "(1::nat) < length (filterButtons example_page)"
    by (simp add: example_page_def)
  have k: "(0::nat) < length (linkCards example_page)" "(1::nat) < length (linkCards example_page)"
    and n: "length (linkCards example_page) = 2"
    by (simp_all add: example_page_def)
  have d: "data_category (filterButtons example_page ! 1) = Some (js ''ai'')"
     "card_data_category (linkCards example_page ! 0) = Some (js ''ai'')"
     "card_data_category (linkCards example_page ! 1) = Some (js ''web'')"
    by (simp_all add: example_page_def)
  note all = handleCategoryFilter_visible [OF b, THEN conjunct2, rule_format]
  have "visible (linkCards (handleCategoryFilter 1 example_page) ! 0) \<longleftrightarrow>
          (Some (js ''ai'') = Some (js ''all'') \<or> Some (js ''ai'') = Some (js ''ai''))"
    using all [OF k(1), THEN conjunct2] unfolding d .
  moreover
  have "visible (linkCards (handleCategoryFilter 1 example_page) ! 1) \<longleftrightarrow>
          (Some (js ''ai'') = Some (js ''all'') \<or> Some (js ''web'') = Some (js ''ai''))"
    using all [OF k(2), THEN conjunct2] unfolding d .
  moreover
  have "length (linkCards (handleCategoryFilter 1 example_page)) = 2"
    using handleCategoryFilter_visible [OF b, THEN conjunct1] unfolding n .
  ultimately show ?thesis
    using b by simp
qed

text \<open>
  C7. When the importer's name field is empty, the \<^verbatim>\<open>added_by\<close> of the request that
  \<^verbatim>\<open>handleImport\<close> sends is "Anonymous" (and for blank content nothing is sent).
\<close>

theorem handleImport_added_by_default:
  "importAddedBy_value s = [] \<Longrightarrow>
     requests (handleImport answer s) =
       requests s @
         (if list_all isWhiteSpace (importText_value s) then []
          else [ImportFromText (trim (importText_value s)) (importCategory_value s)
                  (js ''Anonymous'')])"
  by (cases answer)
     (simp_all add: handleImport_def trim_eq_Nil_iff showNotification_def fetch_def
        console_error_def location_reload_def closeImportModal_def Let_def)

theorem handleImport_added_by_default_witness:
  "importAddedBy_value (example_page\<lparr>importText_value := js ''https://example.com/ml''\<rparr>) = [] \<and>
   requests (handleImport (Got \<lparr>success = True, error = None, imported_count = js ''1''\<rparr>)
               (example_page\<lparr>importText_value := js ''https://example.com/ml''\<rparr>))
     = [ImportFromText (js ''https://example.com/ml'') (js ''general'') (js ''Anonymous'')]"
proof -
  have e: "importAddedBy_value (example_page\<lparr>importText_value := js ''https://example.com/ml''\<rparr>) = []"
    by (simp add: example_page_def)
  have "\<not> list_all isWhiteSpace (js ''https://example.com/ml'')"
    by (simp add: isWhiteSpace_def)
  moreover have "trim (js ''https://example.com/ml'') = js ''https://example.com/ml''"
    by (simp add: trim_def isWhiteSpace_def)
  ultimately show ?thesis
    using handleImport_added_by_default [OF e,
        of "Got \<lparr>success = True, error = None, imported_count = js ''1''\<rparr>"]
    by (simp add: example_page_def)
qed

text \<open>
  C8. When \<^verbatim>\<open>/search\<close> answers the quick search with a sequence of links, the
  palette's results hold the entries of its first five links, in the endpoint's order,
  and nothing beyond the fifth. When the request throws, or the query cannot be encoded
  (it holds a surrogate without its partner) so that no request is sent, the results stay
  as they were. Through \<^verbatim>\<open>handleCommandInput\<close>: an input that is empty or starts with
  a slash shows no link entry, any other input that can be encoded shows those first
  five; and results that held at most five link entries hold at most five afterwards,
  whatever the input and the answer.
\<close>

theorem performQuickSearch_first_five:
  "(encodeURIComponent query = Some q \<longrightarrow>
      cards_of (commandResults_html (performQuickSearch query (Got links) s))
        = map quick_card (take 5 links)
      \<and> requests (performQuickSearch query (Got links) s) = requests s @ [Search q]
      \<and> length (cards_of (commandResults_html (performQuickSearch query (Got links) s))) \<le> 5
      \<and> (\<forall>k < length (cards_of (commandResults_html (performQuickSearch query (Got links) s))).
           k < length links \<and>
           cards_of (commandResults_html (performQuickSearch query (Got links) s)) ! k
             = quick_card (links ! k)))
   \<and> (encodeURIComponent query = None \<longrightarrow>
      performQuickSearch query answer s = s\<lparr>console := console s @ [''Quick search error:'']\<rparr>)
   \<and> commandResults_html (performQuickSearch query Threw s) = commandResults_html s
   \<and> cards_of (commandResults_html (handleCommandInput toLowerCase v (Got links) s))
       = (if startsWith (toLowerCase v) (js ''/'') \<or> toLowerCase v = [] then []
          else if encodeURIComponent (toLowerCase v) = None then cards_of (commandResults_html s)
          else map quick_card (take 5 links))
   \<and> (length (cards_of (commandResults_html s)) \<le> 5 \<longrightarrow>
      length (cards_of (commandResults_html (handleCommandInput toLowerCase v answer s))) \<le> 5)"
  by (cases answer)
     (auto simp add: performQuickSearch_def handleCommandInput_def effect_defs Let_def
        split: option.splits)

theorem performQuickSearch_first_five_witness:
  "encodeURIComponent (js ''ml'') = Some (js ''ml'')
   \<and> map onclick_id (cards_of (commandResults_html
        (performQuickSearch (js ''ml'') (Got (map example_link [1, 2, 3, 4, 5, 6, 7])) example_page)))
      = [Num 1, Num 2, Num 3, Num 4, Num 5]
   \<and> encodeURIComponent [0xDC00] = None
   \<and> requests (performQuickSearch [0xDC00] (Got (map example_link [1, 2, 3, 4, 5, 6, 7])) example_page) = []
   \<and> commandResults_html
        (performQuickSearch [0xDC00] (Got (map example_link [1, 2, 3, 4, 5, 6, 7])) example_page)
      = Markup []"
proof -
  have e: "encodeURIComponent (js ''ml'') = Some (js ''ml'')"
    and f: "encodeURIComponent [0xDC00] = None"
    by code_simp+
  have m: "map onclick_id (map quick_card (take 5 (map example_link [1, 2, 3, 4, 5, 6, 7])))
          = [Num 1, Num 2, Num 3, Num 4, Num 5]"
    by (simp add: quick_card_def example_link_def)
  from performQuickSearch_first_five
         [where query = "js ''ml''" and q = "js ''ml''"
            and links = "map example_link [1, 2, 3, 4, 5, 6, 7]" and s = example_page] e
  have "cards_of (commandResults_html
          (performQuickSearch (js ''ml'') (Got (map example_link [1, 2, 3, 4, 5, 6, 7])) example_page))
        = map quick_card (take 5 (map example_link [1, 2, 3, 4, 5, 6, 7]))"
    by blast
  then have a: "map onclick_id (cards_of (commandResults_html
        (performQuickSearch (js ''ml'') (Got (map example_link [1, 2, 3, 4, 5, 6, 7])) example_page)))
      = [Num 1, Num 2, Num 3, Num 4, Num 5]"
    using m by (simp only:)
  from performQuickSearch_first_five
         [where query = "[0xDC00]" and s = example_page
            and answer = "Got (map example_link [1, 2, 3, 4, 5, 6, 7])"] f
  have "performQuickSearch [0xDC00] (Got (map example_link [1, 2, 3, 4, 5, 6, 7])) example_page
        = example_page\<lparr>console := console example_page @ [''Quick search error:'']\<rparr>"
    by blast
  then have b: "requests (performQuickSearch [0xDC00] (Got (map example_link [1, 2, 3, 4, 5, 6, 7])) example_page) = []"
    "commandResults_html
        (performQuickSearch [0xDC00] (Got (map example_link [1, 2, 3, 4, 5, 6, 7])) example_page)
      = Markup []"
    by (simp_all add: example_page_def)
  show ?thesis
    using e f a b by (simp only: simp_thms)
qed

text \<open>
  C9. \<^verbatim>\<open>openLink\<close> always opens the URL in a new tab (\<^verbatim>\<open>_blank\<close>), and sends the
  click-tracking request for the id exactly when the id is truthy; the ids 0,
  \<^verbatim>\<open>null\<close> and \<^verbatim>\<open>undefined\<close> are not truthy, so such a link opens uncounted.
\<close>

theorem openLink_tracks_iff_truthy:
  "opened (openLink u linkId answer s) = opened s @ [(u, ''_blank'')]
   \<and> requests (openLink u linkId answer s) =
       requests s @ (if truthy linkId then [ClickLink linkId] else [])
   \<and> \<not> truthy (Num 0) \<and> \<not> truthy Null \<and> \<not> truthy Undefined"
  by (cases answer)
     (simp_all add: openLink_def trackLinkClick_def window_open_def fetch_def
        console_error_def Let_def)

theorem openLink_tracks_iff_truthy_witness:
  "requests (openLink (js ''https://example.com/ml'') (Num 0) (Got True) example_page) = []
   \<and> requests (openLink (js ''https://example.com/ml'') (Num 7) (Got True) example_page)
       = [ClickLink (Num 7)]
   \<and> opened (openLink (js ''https://example.com/ml'') Null (Got True) example_page)
       = [(js ''https://example.com/ml'', ''_blank'')]"
  using openLink_tracks_iff_truthy [of "js ''https://example.com/ml''" "Num 0" "Got True" example_page]
    openLink_tracks_iff_truthy [of "js ''https://example.com/ml''" "Num 7" "Got True" example_page]
    openLink_tracks_iff_truthy [of "js ''https://example.com/ml''" Null "Got True" example_page]
  by (simp add: example_page_def)

text \<open>
  C10. When the chat input holds white space only, \<^verbatim>\<open>sendChatMessage\<close> changes
  nothing: no request is sent and no message, of the user or of the AI, is appended.
\<close>

theorem sendChatMessage_blank:
  "list_all isWhiteSpace (chatInput_value s) \<Longrightarrow>
     sendChatMessage t1 t2 t3 answer s = s
     \<and> requests (sendChatMessage t1 t2 t3 answer s) = requests s
     \<and> chatMessages (sendChatMessage t1 t2 t3 answer s) = chatMessages s"
  by (simp add: sendChatMessage_def trim_eq_Nil_iff)

theorem sendChatMessage_blank_witness:
  "list_all isWhiteSpace [0x20, 0x9, 0x3000] \<and>
   sendChatMessage 1 2 3 (Got (Some \<lparr>response = js ''hi'', relevant_links = None\<rparr>))
     (example_page\<lparr>chatInput_value := [0x20, 0x9, 0x3000]\<rparr>)
   = example_page\<lparr>chatInput_value := [0x20, 0x9, 0x3000]\<rparr>"
proof -
  have b: "list_all isWhiteSpace
             (chatInput_value (example_page\<lparr>chatInput_value := [0x20, 0x9, 0x3000]\<rparr>))"
    by (simp add: isWhiteSpace_def)
  show ?thesis
    using sendChatMessage_blank [OF b] b by simp
qed

end
